theory Spec2Isabelle
  imports Complex_Main
begin

section \<open>The timer state\<close>

text \<open>
  The pomodoro core of the repository is the class \<^verbatim>\<open>TimerStorage\<close>
  (assets/js/timerStorage.js) and the class \<^verbatim>\<open>PomodoroManager\<close> that drives it.
  The state is a plain JavaScript object; its fields and their documented domains are
  those of \<^verbatim>\<open>defaultState\<close>. The mode is one of the strings \<^verbatim>\<open>'work'\<close> and
  \<^verbatim>\<open>'break'\<close>; every test of the source is \<^verbatim>\<open>mode === 'work'\<close>, anything else
  being handled as a break. Numbers are JavaScript numbers holding integers, modelled
  as \<open>int\<close>: integer arithmetic on doubles is exact below \<open>2 ^ 53\<close>. The preset name is kept as a string, since the code stores whatever name
  it is given.
\<close>

datatype Mode = Work | Break

record TimerState =
  mode :: Mode
  remainingMs :: int
  preset :: string
  isRunning :: bool
  completedSessions :: int
  lastTickAt :: "int option"
  workDuration :: int
  breakDuration :: int
  customWorkDuration :: int
  customBreakDuration :: int

definition defaultState :: TimerState where
  "defaultState =
     \<lparr> mode = Work,
       remainingMs = 25 * 60 * 1000,
       preset = ''pomodoro'',
       isRunning = False,
       completedSessions = 0,
       lastTickAt = None,
       workDuration = 25,
       breakDuration = 5,
       customWorkDuration = 25,
       customBreakDuration = 5 \<rparr>"

section \<open>The persisted record\<close>

text \<open>
  \<^verbatim>\<open>localStorage\<close> holds at most one item under the key \<^verbatim>\<open>'pomodoro-timer'\<close>
  (\<open>item = None\<close>: no item, or the empty string, which \<^verbatim>\<open>!saved\<close> treats alike).
  \<open>Malformed\<close> is an item that is not the JSON text of an object: \<^verbatim>\<open>JSON.parse\<close>
  raises, or yields \<^verbatim>\<open>null\<close> or a number, and \<^verbatim>\<open>loadState\<close> answers the
  defaults on each of these paths. \<open>Parsed\<close> is an object in which any key may be
  missing (\<open>None\<close>). For \<open>raw_lastTickAt\<close>, \<open>None\<close> also
  stands for \<^verbatim>\<open>null\<close>: a missing key and \<^verbatim>\<open>null\<close> are both falsy and both end
  as \<^verbatim>\<open>null\<close> after the merge with the defaults. Keys that are present hold values
  of the documented type.

  Every access to \<^verbatim>\<open>localStorage\<close> sits in a \<^verbatim>\<open>try\<close> whose \<^verbatim>\<open>catch\<close> logs and
  goes on. \<open>readable\<close> says that \<^verbatim>\<open>getItem\<close> returns, \<open>writable\<close> that
  \<^verbatim>\<open>setItem\<close> and \<^verbatim>\<open>removeItem\<close> return rather than raise.
\<close>

record RawState =
  raw_mode :: "Mode option"
  raw_remainingMs :: "int option"
  raw_preset :: "string option"
  raw_isRunning :: "bool option"
  raw_completedSessions :: "int option"
  raw_lastTickAt :: "int option"
  raw_workDuration :: "int option"
  raw_breakDuration :: "int option"
  raw_customWorkDuration :: "int option"
  raw_customBreakDuration :: "int option"

datatype Stored = Malformed | Parsed RawState

record LocalStorage =
  item :: "Stored option"
  readable :: bool
  writable :: bool

definition toRaw :: "TimerState \<Rightarrow> RawState" where
  \<comment> \<open>\<^verbatim>\<open>JSON.parse (JSON.stringify s)\<close> for a complete state\<close>
  "toRaw s =
     \<lparr> raw_mode = Some (mode s),
       raw_remainingMs = Some (remainingMs s),
       raw_preset = Some (preset s),
       raw_isRunning = Some (isRunning s),
       raw_completedSessions = Some (completedSessions s),
       raw_lastTickAt = lastTickAt s,
       raw_workDuration = Some (workDuration s),
       raw_breakDuration = Some (breakDuration s),
       raw_customWorkDuration = Some (customWorkDuration s),
       raw_customBreakDuration = Some (customBreakDuration s) \<rparr>"

definition orDefault :: "'a option \<Rightarrow> 'a \<Rightarrow> 'a" where
  "orDefault v d = (case v of None \<Rightarrow> d | Some x \<Rightarrow> x)"

definition mergeDefaults :: "RawState \<Rightarrow> TimerState" where
  \<comment> \<open>\<^verbatim>\<open>{ ...this.defaultState, ...state }\<close>\<close>
  "mergeDefaults r =
     \<lparr> mode = orDefault (raw_mode r) (mode defaultState),
       remainingMs = orDefault (raw_remainingMs r) (remainingMs defaultState),
       preset = orDefault (raw_preset r) (preset defaultState),
       isRunning = orDefault (raw_isRunning r) (isRunning defaultState),
       completedSessions = orDefault (raw_completedSessions r) (completedSessions defaultState),
       lastTickAt = raw_lastTickAt r,
       workDuration = orDefault (raw_workDuration r) (workDuration defaultState),
       breakDuration = orDefault (raw_breakDuration r) (breakDuration defaultState),
       customWorkDuration = orDefault (raw_customWorkDuration r) (customWorkDuration defaultState),
       customBreakDuration =
         orDefault (raw_customBreakDuration r) (customBreakDuration defaultState) \<rparr>"

definition truthy :: "int option \<Rightarrow> bool" where
  \<comment> \<open>a number in a condition: \<^verbatim>\<open>undefined\<close>, \<^verbatim>\<open>null\<close>, \<^verbatim>\<open>NaN\<close> and \<^verbatim>\<open>0\<close> are falsy\<close>
  "truthy v = (case v of None \<Rightarrow> False | Some n \<Rightarrow> n \<noteq> 0)"

definition reconcile :: "int \<Rightarrow> RawState \<Rightarrow> RawState option" where
  \<comment> \<open>The body of \<^verbatim>\<open>loadState\<close> between \<^verbatim>\<open>JSON.parse\<close> and the merge. Arithmetic on
      a missing key gives \<^verbatim>\<open>NaN\<close> in the source, which then stays in the returned
      object; no \<open>TimerState\<close> holds it, so the model answers \<open>None\<close> there.\<close>
  "reconcile now state =
     (if raw_isRunning state = Some True \<and> truthy (raw_lastTickAt state) then
        (case (raw_lastTickAt state, raw_remainingMs state) of
           (Some t, Some r) \<Rightarrow>
             (let elapsed = now - t;
                  remaining = max 0 (r - elapsed)
              in if remaining = 0 then
                   (if raw_mode state = Some Work then
                      (case (raw_completedSessions state, raw_breakDuration state) of
                         (Some c, Some b) \<Rightarrow>
                           Some (state
                             \<lparr> raw_remainingMs := Some (b * 60 * 1000),
                               raw_isRunning := Some False,
                               raw_completedSessions := Some (c + 1),
                               raw_mode := Some Break \<rparr>)
                       | _ \<Rightarrow> None)
                    else
                      (case raw_workDuration state of
                         Some w \<Rightarrow>
                           Some (state
                             \<lparr> raw_remainingMs := Some (w * 60 * 1000),
                               raw_isRunning := Some False,
                               raw_mode := Some Work \<rparr>)
                       | None \<Rightarrow> None))
                 else Some (state \<lparr> raw_remainingMs := Some remaining \<rparr>))
         | _ \<Rightarrow> None)
      else Some state)"

definition loadState :: "int \<Rightarrow> LocalStorage \<Rightarrow> TimerState option" where
  \<comment> \<open>\<open>now\<close> is what \<^verbatim>\<open>Date.now()\<close> returns\<close>
  "loadState now ls =
     (if \<not> readable ls then Some defaultState
      else
        (case item ls of
           None \<Rightarrow> Some defaultState
         | Some Malformed \<Rightarrow> Some defaultState
         | Some (Parsed state) \<Rightarrow> map_option mergeDefaults (reconcile now state)))"

definition saveState :: "TimerState \<Rightarrow> int \<Rightarrow> LocalStorage \<Rightarrow> LocalStorage" where
  "saveState state now ls =
     (if writable ls then
        ls \<lparr> item :=
               Some (Parsed (toRaw (state
                 \<lparr> lastTickAt := (if isRunning state then Some now else None) \<rparr>))) \<rparr>
      else ls)"

definition clearState :: "LocalStorage \<Rightarrow> LocalStorage" where
  "clearState ls = (if writable ls then ls \<lparr> item := None \<rparr> else ls)"

section \<open>Presets\<close>

text \<open>
  A preset's label, description and icon are display text that no function of the
  core reads; the model keeps the two durations.

  \<^verbatim>\<open>presets[presetName]\<close> is a property read on an object literal: besides the three
  own keys it finds the properties every object inherits from \<^verbatim>\<open>Object.prototype\<close>,
  which are truthy and have no \<^verbatim>\<open>workDuration\<close>.
\<close>

record Preset =
  presetWork :: int
  presetBreak :: int

datatype Lookup = Own Preset | Inherited | Missing

definition objectPrototypeKeys :: "string list" where
  "objectPrototypeKeys =
     [''constructor'', ''hasOwnProperty'', ''isPrototypeOf'', ''propertyIsEnumerable'',
      ''toLocaleString'', ''toString'', ''valueOf'', ''__proto__'',
      ''__defineGetter__'', ''__defineSetter__'', ''__lookupGetter__'', ''__lookupSetter__'']"

definition getPresets :: "string \<Rightarrow> Lookup" where
  \<comment> \<open>\<open>getPresets k\<close> is the read \<^verbatim>\<open>this.getPresets()[k]\<close>\<close>
  "getPresets k =
     (if k = ''pomodoro'' then Own \<lparr> presetWork = 25, presetBreak = 5 \<rparr>
      else if k = ''deepwork'' then Own \<lparr> presetWork = 50, presetBreak = 10 \<rparr>
      else if k = ''custom'' then Own \<lparr> presetWork = 25, presetBreak = 5 \<rparr>
      else if k \<in> set objectPrototypeKeys then Inherited
      else Missing)"

text \<open>
  The second argument of \<^verbatim>\<open>initializeWithPreset\<close> is an object that may carry
  \<^verbatim>\<open>workDuration\<close> and \<^verbatim>\<open>breakDuration\<close>. \<open>None\<close> is a key that is missing
  or holds \<^verbatim>\<open>undefined\<close>, \<^verbatim>\<open>null\<close> or \<^verbatim>\<open>NaN\<close> (what \<^verbatim>\<open>parseInt\<close> makes of an
  empty input): all of them are falsy, and each field is read only on the left of
  \<^verbatim>\<open>||\<close>.
\<close>

record CustomDurations =
  customWork :: "int option"
  customBreak :: "int option"

definition noCustomDurations :: CustomDurations where
  \<comment> \<open>the default argument \<^verbatim>\<open>{}\<close>\<close>
  "noCustomDurations = \<lparr> customWork = None, customBreak = None \<rparr>"

definition orElse :: "int option \<Rightarrow> int \<Rightarrow> int" where
  \<comment> \<open>\<^verbatim>\<open>v || d\<close> on a number that may be missing\<close>
  "orElse v d = (case v of None \<Rightarrow> d | Some n \<Rightarrow> if n = 0 then d else n)"

definition initializeWithPreset :: "string \<Rightarrow> CustomDurations \<Rightarrow> TimerState option" where
  \<comment> \<open>\<open>None\<close>: the name is an inherited property, the durations read from it are
      \<^verbatim>\<open>undefined\<close> and \<^verbatim>\<open>remainingMs\<close> is \<^verbatim>\<open>NaN\<close>.\<close>
  "initializeWithPreset presetName customDurations =
     (case (case getPresets presetName of Missing \<Rightarrow> getPresets ''pomodoro'' | l \<Rightarrow> l) of
        Own p \<Rightarrow>
          (let work = (if presetName = ''custom''
                       then orElse (customWork customDurations) (presetWork p)
                       else presetWork p);
               brk = (if presetName = ''custom''
                      then orElse (customBreak customDurations) (presetBreak p)
                      else presetBreak p)
           in Some (defaultState
                \<lparr> preset := presetName,
                  workDuration := work,
                  breakDuration := brk,
                  remainingMs := work * 60 * 1000,
                  customWorkDuration :=
                    orElse (customWork customDurations) (customWorkDuration defaultState),
                  customBreakDuration :=
                    orElse (customBreak customDurations) (customBreakDuration defaultState) \<rparr>))
      | _ \<Rightarrow> None)"

section \<open>Formatting and progress\<close>

fun decimal :: "nat \<Rightarrow> string" where
  "decimal n =
     (if n < 10 then [''0123456789'' ! n]
      else decimal (n div 10) @ [''0123456789'' ! (n mod 10)])"

declare decimal.simps [simp del]

definition toString :: "int \<Rightarrow> string" where
  "toString i = (if i < 0 then CHR ''-'' # decimal (nat (- i)) else decimal (nat i))"

definition padStart2 :: "string \<Rightarrow> string" where
  \<comment> \<open>\<^verbatim>\<open>.padStart(2, '0')\<close>\<close>
  "padStart2 s = replicate (2 - length s) CHR ''0'' @ s"

definition jsRem :: "int \<Rightarrow> int \<Rightarrow> int" where
  \<comment> \<open>\<^verbatim>\<open>a % b\<close>: the remainder takes the sign of the dividend\<close>
  "jsRem a b = sgn a * (\<bar>a\<bar> mod \<bar>b\<bar>)"

definition formatTime :: "int \<Rightarrow> string" where
  "formatTime ms =
     (let totalSeconds = - ((- ms) div 1000);
          minutes = totalSeconds div 60;
          seconds = jsRem totalSeconds 60
      in padStart2 (toString minutes) @ '':'' @ padStart2 (toString seconds))"

text \<open>
  \<^verbatim>\<open>getProgress\<close> divides and multiplies JavaScript numbers, which are IEEE-754
  doubles: each of the two operations returns the double nearest to the exact result.
  That rounding belongs to the runtime, not to the repository, and is the parameter
  \<open>fl\<close> of the model, so that \<^verbatim>\<open>a / b\<close> is \<open>fl (a / b)\<close>. The products
  \<^verbatim>\<open>workDuration * 60 * 1000\<close> and the difference \<^verbatim>\<open>totalMs - remainingMs\<close> are
  integer arithmetic, exact as long as the numbers stay below \<open>2 ^ 53\<close>.

  \<open>roundsToNearest\<close> collects what the theorems use of rounding to nearest: it is
  monotone, and it returns a number that is a double unchanged; 0, 1, 100 and the
  smallest positive double \<open>2 ^ -1074\<close> are doubles.
\<close>

definition minDouble :: rat where
  "minDouble = 1 / 2 ^ 1074"

definition roundsToNearest :: "(rat \<Rightarrow> rat) \<Rightarrow> bool" where
  "roundsToNearest fl =
     (mono fl \<and> fl 0 = 0 \<and> fl 1 = 1 \<and> fl 100 = 100 \<and> fl minDouble = minDouble)"

definition noRounding :: "rat \<Rightarrow> rat" where
  \<comment> \<open>the rounding that never rounds: what \<open>fl\<close> does on results that are doubles\<close>
  "noRounding x = x"

definition getProgress :: "(rat \<Rightarrow> rat) \<Rightarrow> TimerState \<Rightarrow> rat option" where
  \<comment> \<open>Division by zero is written out: \<^verbatim>\<open>0/0\<close> is \<^verbatim>\<open>NaN\<close> (\<open>None\<close>), which
      \<^verbatim>\<open>Math.min\<close> and \<^verbatim>\<open>Math.max\<close> pass on, and \<^verbatim>\<open>x/0\<close> is an infinity that the
      clamp brings back to 0 or 100.\<close>
  "getProgress fl state =
     (let totalMs = (if mode state = Work
                     then workDuration state * 60 * 1000
                     else breakDuration state * 60 * 1000)
      in if totalMs = 0 then
           (if remainingMs state = 0 then None
            else if 0 < remainingMs state then Some 0
            else Some 100)
         else
           (let progress =
                  fl (fl (rat_of_int (totalMs - remainingMs state) / rat_of_int totalMs) * 100)
            in Some (min 100 (max 0 progress))))"

definition isCompleted :: "TimerState \<Rightarrow> bool" where
  "isCompleted state = (remainingMs state \<le> 0)"

definition getNextMode :: "TimerState \<Rightarrow> Mode" where
  "getNextMode state = (if mode state = Work then Break else Work)"

definition transitionToNext :: "TimerState \<Rightarrow> TimerState" where
  "transitionToNext state =
     (let isWorkCompleted = (mode state = Work);
          nextMode = getNextMode state
      in state
           \<lparr> mode := nextMode,
             remainingMs := (if nextMode = Work
                             then workDuration state * 60 * 1000
                             else breakDuration state * 60 * 1000),
             completedSessions := (if isWorkCompleted
                                   then completedSessions state + 1
                                   else completedSessions state),
             isRunning := False \<rparr>)"

section \<open>The engine\<close>

text \<open>
  \<^verbatim>\<open>PomodoroManager\<close> holds the state, the handle of the one-second interval and the
  subscribers. Subscribers belong to the presentation layer; what the engine does is
  call \<^verbatim>\<open>emit\<close>, and the model records each call, oldest first. \<open>timerActive\<close> says
  that \<^verbatim>\<open>intervalId\<close> is set. \<open>storage\<close> is the \<^verbatim>\<open>localStorage\<close> the singleton
  store writes to. Each operation reads the clock at most once; \<open>now\<close> is that
  reading.
\<close>

datatype Event =
    OnTick int string "rat option"
  | OnStateChange "TimerState option" TimerState
  | OnComplete Mode Mode int
  | OnModeSwitch Mode Mode int

record Engine =
  state :: TimerState
  timerActive :: bool
  events :: "Event list"
  storage :: LocalStorage

definition emit :: "Event \<Rightarrow> Engine \<Rightarrow> Engine" where
  "emit ev e = e \<lparr> events := events e @ [ev] \<rparr>"

definition startTimer :: "Engine \<Rightarrow> Engine" where
  "startTimer e = e \<lparr> timerActive := True \<rparr>"

definition stopTimer :: "Engine \<Rightarrow> Engine" where
  "stopTimer e = e \<lparr> timerActive := False \<rparr>"

definition updateState :: "(TimerState \<Rightarrow> TimerState) \<Rightarrow> int \<Rightarrow> Engine \<Rightarrow> Engine" where
  \<comment> \<open>\<open>updates\<close> is the assignment of the keys of the argument object\<close>
  "updateState updates now e =
     (let prevState = state e;
          e1 = e \<lparr> state := updates (state e) \<rparr>;
          e2 = e1 \<lparr> storage := saveState (state e1) now (storage e1) \<rparr>
      in emit (OnStateChange (Some prevState) (state e2)) e2)"

definition newPomodoroManager :: "int \<Rightarrow> LocalStorage \<Rightarrow> Engine option" where
  "newPomodoroManager now ls =
     (case loadState now ls of
        None \<Rightarrow> None
      | Some s \<Rightarrow>
          (let e = \<lparr> state = s, timerActive = False, events = [], storage = ls \<rparr>
           in Some (if isRunning s then startTimer e else e)))"

definition start :: "int \<Rightarrow> Engine \<Rightarrow> Engine" where
  "start now e =
     (if isRunning (state e) then e
      else startTimer (updateState (\<lambda>s. s \<lparr> isRunning := True \<rparr>) now e))"

definition pause :: "int \<Rightarrow> Engine \<Rightarrow> Engine" where
  "pause now e =
     (if \<not> isRunning (state e) then e
      else updateState (\<lambda>s. s \<lparr> isRunning := False \<rparr>) now (stopTimer e))"

definition toggle :: "int \<Rightarrow> Engine \<Rightarrow> Engine" where
  "toggle now e = (if isRunning (state e) then pause now e else start now e)"

definition reset :: "int \<Rightarrow> Engine \<Rightarrow> Engine" where
  "reset now e =
     (let e1 = stopTimer e;
          resetTime = (if mode (state e1) = Work
                       then workDuration (state e1) * 60 * 1000
                       else breakDuration (state e1) * 60 * 1000)
      in updateState (\<lambda>s. s \<lparr> isRunning := False, remainingMs := resetTime \<rparr>) now e1)"

definition selectPreset :: "string \<Rightarrow> CustomDurations \<Rightarrow> int \<Rightarrow> Engine \<Rightarrow> Engine option" where
  "selectPreset presetName customDurations now e =
     (let e1 = stopTimer e
      in case initializeWithPreset presetName customDurations of
           None \<Rightarrow> None
         | Some newState \<Rightarrow>
             (let newState' = newState \<lparr> completedSessions := completedSessions (state e1) \<rparr>;
                  e2 = e1 \<lparr> state := newState' \<rparr>;
                  e3 = e2 \<lparr> storage := saveState (state e2) now (storage e2) \<rparr>
              in Some (emit (OnStateChange None (state e3)) e3)))"

definition setCustomDurations :: "int option \<Rightarrow> int option \<Rightarrow> int \<Rightarrow> Engine \<Rightarrow> Engine option" where
  "setCustomDurations workMinutes breakMinutes now e =
     selectPreset ''custom'' \<lparr> customWork = workMinutes, customBreak = breakMinutes \<rparr> now e"

definition skipSession :: "int \<Rightarrow> Engine \<Rightarrow> Engine" where
  "skipSession now e =
     (let e1 = stopTimer e;
          nextState = transitionToNext (state e1);
          e2 = updateState (\<lambda>_. nextState) now e1
      in emit (OnModeSwitch (mode (state e2)) (mode nextState) (completedSessions nextState)) e2)"

definition handleTimerComplete :: "int \<Rightarrow> Engine \<Rightarrow> Engine" where
  "handleTimerComplete now e =
     (let wasWorkSession = (mode (state e) = Work);
          nextState = transitionToNext (state e);
          e1 = stopTimer e;
          e2 = updateState (\<lambda>_. nextState) now e1;
          e3 = emit (OnComplete (if wasWorkSession then Work else Break) (mode nextState)
                       (completedSessions nextState)) e2
      in emit (OnModeSwitch (if wasWorkSession then Work else Break) (mode nextState)
                 (completedSessions nextState)) e3)"

definition tick :: "(rat \<Rightarrow> rat) \<Rightarrow> int \<Rightarrow> Engine \<Rightarrow> Engine" where
  \<comment> \<open>\<open>fl\<close> is the rounding of the runtime's arithmetic, used by \<^verbatim>\<open>getProgress\<close>\<close>
  "tick fl now e =
     (if \<not> isRunning (state e) then stopTimer e
      else
        (let newRemainingMs = max 0 (remainingMs (state e) - 1000)
         in if newRemainingMs = 0 then handleTimerComplete now e
            else
              (let e1 = updateState (\<lambda>s. s \<lparr> remainingMs := newRemainingMs \<rparr>) now e
               in emit (OnTick newRemainingMs (formatTime newRemainingMs)
                          (getProgress fl (state e1))) e1)))"

definition resetAll :: "int \<Rightarrow> Engine \<Rightarrow> Engine option" where
  "resetAll now e =
     (let e1 = stopTimer e;
          e2 = e1 \<lparr> storage := clearState (storage e1) \<rparr>
      in case loadState now (storage e2) of
           None \<Rightarrow> None
         | Some s \<Rightarrow>
             (let e3 = e2 \<lparr> state := s \<rparr>
              in Some (emit (OnStateChange None (state e3)) e3)))"

section \<open>Derived notions and concrete inputs\<close>

definition phaseTotalMs :: "TimerState \<Rightarrow> int" where
  \<comment> \<open>the configured length of the current mode, in milliseconds\<close>
  "phaseTotalMs s = (if mode s = Work then workDuration s else breakDuration s) * 60000"

definition workingStorage :: LocalStorage where
  "workingStorage = \<lparr> item = None, readable = True, writable = True \<rparr>"

definition freshEngine :: Engine where
  "freshEngine =
     \<lparr> state = defaultState, timerActive = False, events = [], storage = workingStorage \<rparr>"

definition expiringEngine :: Engine where
  \<comment> \<open>a running work phase with one second left and three sessions done\<close>
  "expiringEngine =
     freshEngine
       \<lparr> state := defaultState
           \<lparr> isRunning := True, remainingMs := 1000, completedSessions := 3 \<rparr>,
         timerActive := True \<rparr>"

definition customisedEngine :: Engine where
  \<comment> \<open>the state that \<^verbatim>\<open>setCustomDurations(40, 10)\<close> leaves\<close>
  "customisedEngine =
     freshEngine
       \<lparr> state := defaultState
           \<lparr> preset := ''custom'', workDuration := 40, breakDuration := 10,
             remainingMs := 2400000, customWorkDuration := 40, customBreakDuration := 10 \<rparr> \<rparr>"

definition awayRecord :: RawState where
  \<comment> \<open>saved while running at time 70000 with ten seconds left\<close>
  "awayRecord =
     toRaw (defaultState \<lparr> isRunning := True, lastTickAt := Some 70000,
              remainingMs := 10000, completedSessions := 3 \<rparr>)"


definition overfullState :: TimerState where
  \<comment> \<open>30 minutes left in a 25-minute work phase\<close>
  "overfullState = defaultState \<lparr> remainingMs := 1800000 \<rparr>"

section \<open>The transition rule and what each operation does to the state\<close>

lemma transitionToNext_sessions:
  "completedSessions (transitionToNext s) =
     (if mode s = Work then completedSessions s + 1 else completedSessions s)"
  by (simp add: transitionToNext_def Let_def)

lemma skipSession_events:
  "events (skipSession now e) =
     events e @
       [OnStateChange (Some (state e)) (transitionToNext (state e)),
        OnModeSwitch (mode (transitionToNext (state e))) (mode (transitionToNext (state e)))
          (completedSessions (transitionToNext (state e)))]"
  by (simp add: skipSession_def updateState_def emit_def stopTimer_def Let_def)

lemma skipSession_state: "state (skipSession now e) = transitionToNext (state e)"
  by (simp add: skipSession_def updateState_def emit_def stopTimer_def Let_def)

text \<open>
  C1. A tick of a running work phase with \<open>remainingMs = 1000\<close> ends the phase: the
  state becomes a paused break of full length with one more completed session, the
  interval is cancelled, the new state is what is handed to the store, and the calls
  of \<^verbatim>\<open>emit\<close> are the state change, then \<^verbatim>\<open>onComplete\<close>, then \<^verbatim>\<open>onModeSwitch\<close>.
  The value 0 computed on the way is in none of them: with a positive break length
  neither the engine's state nor the persisted record has \<open>remainingMs = 0\<close>, and the
  previous state carried by the state-change event still has 1000.
\<close>

theorem tick_completes_work_phase:
  assumes "isRunning (state e)" and "mode (state e) = Work" and "remainingMs (state e) = 1000"
  shows "state (tick fl now e) =
           (state e) \<lparr> mode := Break,
                       remainingMs := breakDuration (state e) * 60000,
                       completedSessions := completedSessions (state e) + 1,
                       isRunning := False \<rparr>
       \<and> events (tick fl now e) =
           events e @
             [OnStateChange (Some (state e)) (state (tick fl now e)),
              OnComplete Work Break (completedSessions (state e) + 1),
              OnModeSwitch Work Break (completedSessions (state e) + 1)]
       \<and> storage (tick fl now e) = saveState (state (tick fl now e)) now (storage e)
       \<and> \<not> timerActive (tick fl now e)
       \<and> (0 < breakDuration (state e) \<longrightarrow> remainingMs (state (tick fl now e)) \<noteq> 0)
       \<and> (0 < breakDuration (state e) \<and> writable (storage e) \<longrightarrow>
            (\<exists>raw. item (storage (tick fl now e)) = Some (Parsed raw)
                   \<and> raw_remainingMs raw = Some (breakDuration (state e) * 60000)
                   \<and> raw_remainingMs raw \<noteq> Some 0))"
  using assms
  by (simp add: tick_def handleTimerComplete_def updateState_def emit_def stopTimer_def
        transitionToNext_def getNextMode_def saveState_def toRaw_def Let_def)

text \<open>C1 at a concrete engine: 25/5 preset, three sessions done, one second left.\<close>

theorem tick_completes_work_phase_witness:
  "state (tick noRounding 12 expiringEngine) =
     defaultState \<lparr> mode := Break, remainingMs := 300000, completedSessions := 4 \<rparr>
   \<and> events (tick noRounding 12 expiringEngine) =
     [OnStateChange (Some (state expiringEngine))
        (defaultState \<lparr> mode := Break, remainingMs := 300000, completedSessions := 4 \<rparr>),
      OnComplete Work Break 4,
      OnModeSwitch Work Break 4]
   \<and> \<not> timerActive (tick noRounding 12 expiringEngine)
   \<and> item (storage (tick noRounding 12 expiringEngine)) =
       Some (Parsed (toRaw
         (defaultState \<lparr> mode := Break, remainingMs := 300000, completedSessions := 4 \<rparr>)))"
  using tick_completes_work_phase [of expiringEngine noRounding 12]
  by (simp add: expiringEngine_def freshEngine_def workingStorage_def defaultState_def
        saveState_def toRaw_def)

section \<open>Formatting\<close>

text \<open>The three values the specification gives for \<^verbatim>\<open>formatTime\<close>.\<close>

lemma formatTime_examples:
  "formatTime 0 = ''00:00''" "formatTime 1 = ''00:01''" "formatTime 90000 = ''01:30''"
  by code_simp+

section \<open>Loading and saving\<close>

lemma reconcile_running:
  assumes "raw_isRunning raw = Some True" and "raw_lastTickAt raw = Some t" and "t \<noteq> 0"
    and "raw_remainingMs raw = Some r"
  shows "reconcile now raw =
     (if r \<le> now - t then
        (if raw_mode raw = Some Work then
           (case (raw_completedSessions raw, raw_breakDuration raw) of
              (Some c, Some b) \<Rightarrow>
                Some (raw \<lparr> raw_remainingMs := Some (b * 60 * 1000), raw_isRunning := Some False,
                            raw_completedSessions := Some (c + 1), raw_mode := Some Break \<rparr>)
            | _ \<Rightarrow> None)
         else
           (case raw_workDuration raw of
              Some w \<Rightarrow>
                Some (raw \<lparr> raw_remainingMs := Some (w * 60 * 1000), raw_isRunning := Some False,
                            raw_mode := Some Work \<rparr>)
            | None \<Rightarrow> None))
      else Some (raw \<lparr> raw_remainingMs := Some (r - (now - t)) \<rparr>))"
proof -
  have expired: "(max 0 (r - (now - t)) = 0) = (r \<le> now - t)"
    by (simp add: max_def)
  have left: "\<not> r \<le> now - t \<Longrightarrow> max 0 (r - (now - t)) = r - (now - t)"
    by (simp add: max_def)
  show ?thesis
    using assms by (simp add: reconcile_def truthy_def Let_def expired left)
qed



text \<open>
  C6. Saving a paused state and loading it again, in a store that accepts the write
  and the read, gives the state back with \<open>lastTickAt\<close> null, whatever the two clock
  readings are.
\<close>

theorem save_load_roundtrip:
  assumes "\<not> isRunning s" and "readable ls" and "writable ls"
  shows "loadState later (saveState s now ls) = Some (s \<lparr> lastTickAt := None \<rparr>)"
  using assms
  by (simp add: loadState_def saveState_def reconcile_def toRaw_def mergeDefaults_def
        orDefault_def)

text \<open>C6 at a paused deep-work break that still carries an old timestamp.\<close>

theorem save_load_roundtrip_witness:
  "loadState 50
     (saveState (defaultState \<lparr> mode := Break, preset := ''deepwork'', remainingMs := 420000,
                    lastTickAt := Some 7, workDuration := 50, breakDuration := 10 \<rparr>)
        50 workingStorage) =
   Some (defaultState \<lparr> mode := Break, preset := ''deepwork'', remainingMs := 420000,
           workDuration := 50, breakDuration := 10 \<rparr>)"
  using save_load_roundtrip [of
      "defaultState \<lparr> mode := Break, preset := ''deepwork'', remainingMs := 420000,
                      lastTickAt := Some 7, workDuration := 50, breakDuration := 10 \<rparr>"
      workingStorage 50 50]
  by (simp add: workingStorage_def defaultState_def)

section \<open>Skipping\<close>

text \<open>
  C3, evaluated on a fresh engine in work mode. The mode switch that
  \<^verbatim>\<open>skipSession\<close> announces reads \<^verbatim>\<open>this.state.mode\<close> after \<^verbatim>\<open>updateState\<close> has
  stored the next state, so its \<^verbatim>\<open>fromMode\<close> is the new mode: the payload is
  break to break, where the mode before the skip was work. No \<^verbatim>\<open>onComplete\<close> is
  emitted and the session count goes from 0 to 1.
\<close>

theorem skipSession_fromMode_is_new_mode:
  "mode (state freshEngine) = Work
   \<and> state (skipSession 0 freshEngine) =
       defaultState \<lparr> mode := Break, remainingMs := 300000, completedSessions := 1 \<rparr>
   \<and> events (skipSession 0 freshEngine) =
       [OnStateChange (Some defaultState)
          (defaultState \<lparr> mode := Break, remainingMs := 300000, completedSessions := 1 \<rparr>),
        OnModeSwitch Break Break 1]"
  by (simp add: skipSession_events skipSession_state transitionToNext_def getNextMode_def
        freshEngine_def defaultState_def Let_def)

section \<open>Presets\<close>

text \<open>
  C4, as the code has it. \<^verbatim>\<open>initializeWithPreset\<close> builds the two custom fields
  from the overrides or else from the defaults, and \<^verbatim>\<open>selectPreset\<close> carries over
  the session count only. Selecting \<^verbatim>\<open>'pomodoro'\<close> or \<^verbatim>\<open>'deepwork'\<close> without
  overrides therefore sets \<open>customWorkDuration = 25\<close> and \<open>customBreakDuration = 5\<close>,
  whatever they were.
\<close>

theorem selectPreset_resets_custom_fields:
  assumes "presetName = ''pomodoro'' \<or> presetName = ''deepwork''"
  shows "\<exists>e'. selectPreset presetName noCustomDurations now e = Some e'
           \<and> customWorkDuration (state e') = 25 \<and> customBreakDuration (state e') = 5"
  using assms
  by (auto simp add: selectPreset_def initializeWithPreset_def getPresets_def
        orElse_def emit_def stopTimer_def Let_def defaultState_def noCustomDurations_def)

text \<open>C4 at an engine whose custom durations are 40 and 10.\<close>

theorem selectPreset_resets_custom_fields_witness:
  "map_option (customWorkDuration \<circ> state)
     (selectPreset ''deepwork'' noCustomDurations 9 customisedEngine) = Some 25
   \<and> map_option (customBreakDuration \<circ> state)
     (selectPreset ''deepwork'' noCustomDurations 9 customisedEngine) = Some 5"
  using selectPreset_resets_custom_fields [of "''deepwork''" 9 customisedEngine]
  by auto

text \<open>
  C4 as stated fails: after \<^verbatim>\<open>setCustomDurations(40, 10)\<close> the custom fields are
  40 and 10, and \<^verbatim>\<open>selectPreset('pomodoro')\<close> puts them back to 25 and 5.
\<close>

theorem selectPreset_forgets_custom_durations:
  "map_option state (setCustomDurations (Some 40) (Some 10) 0 freshEngine) =
     Some (state customisedEngine)
   \<and> customWorkDuration (state customisedEngine) = 40
   \<and> customBreakDuration (state customisedEngine) = 10
   \<and> map_option (customWorkDuration \<circ> state)
        (selectPreset ''pomodoro'' noCustomDurations 0 customisedEngine) = Some 25
   \<and> map_option (customBreakDuration \<circ> state)
        (selectPreset ''pomodoro'' noCustomDurations 0 customisedEngine) = Some 5"
  by (simp add: setCustomDurations_def selectPreset_def initializeWithPreset_def getPresets_def
        orElse_def emit_def stopTimer_def Let_def customisedEngine_def freshEngine_def
        defaultState_def noCustomDurations_def)

text \<open>
  C5. \<^verbatim>\<open>selectPreset('deepwork')\<close> gives 50 and 10 minutes, 3000000 ms left, work
  mode, and the session count of the state before; with the default argument the new
  state is the default state with exactly these fields changed.
\<close>

theorem selectPreset_deepwork:
  "(\<exists>e'. selectPreset ''deepwork'' cd now e = Some e'
       \<and> workDuration (state e') = 50 \<and> breakDuration (state e') = 10
       \<and> remainingMs (state e') = 3000000 \<and> mode (state e') = Work
       \<and> completedSessions (state e') = completedSessions (state e)
       \<and> preset (state e') = ''deepwork'' \<and> \<not> isRunning (state e')
       \<and> lastTickAt (state e') = None)
   \<and> map_option state (selectPreset ''deepwork'' noCustomDurations now e) =
       Some (defaultState \<lparr> preset := ''deepwork'', workDuration := 50, breakDuration := 10,
               remainingMs := 3000000, completedSessions := completedSessions (state e) \<rparr>)"
  by (simp add: selectPreset_def initializeWithPreset_def getPresets_def defaultState_def
        orElse_def noCustomDurations_def emit_def stopTimer_def Let_def)

text \<open>C5 from a running engine with three sessions done.\<close>

theorem selectPreset_deepwork_witness:
  "map_option state (selectPreset ''deepwork'' noCustomDurations 12 expiringEngine) =
     Some (defaultState \<lparr> preset := ''deepwork'', workDuration := 50, breakDuration := 10,
             remainingMs := 3000000, completedSessions := 3 \<rparr>)"
  using selectPreset_deepwork [of noCustomDurations 12 expiringEngine]
  by (simp add: expiringEngine_def freshEngine_def defaultState_def)

lemma getPresets_unknown:
  "presetName \<noteq> ''pomodoro'' \<Longrightarrow> presetName \<noteq> ''deepwork'' \<Longrightarrow> presetName \<noteq> ''custom'' \<Longrightarrow>
   presetName \<notin> set objectPrototypeKeys \<Longrightarrow> getPresets presetName = Missing"
  by (simp add: getPresets_def)

lemma initializeWithPreset_inherited:
  "initializeWithPreset ''toString'' cd = None"
  by (simp add: initializeWithPreset_def getPresets_def objectPrototypeKeys_def)

text \<open>
  What the fallback \<^verbatim>\<open>presets[presetName] || presets.pomodoro\<close> does for a name
  that no object has: the durations are those of \<^verbatim>\<open>'pomodoro'\<close>, and the state
  records the name it was given.
\<close>

lemma unknown_name_takes_pomodoro_durations:
  assumes "presetName \<noteq> ''pomodoro''" and "presetName \<noteq> ''deepwork''"
    and "presetName \<noteq> ''custom''" and "presetName \<notin> set objectPrototypeKeys"
  shows "\<exists>s. initializeWithPreset ''pomodoro'' cd = Some s
           \<and> initializeWithPreset presetName cd = Some (s \<lparr> preset := presetName \<rparr>)"
  using assms getPresets_unknown [OF assms]
  by (simp add: initializeWithPreset_def [of presetName]
        initializeWithPreset_def [of "''pomodoro''"] getPresets_def [of "''pomodoro''"]
        Let_def defaultState_def)

text \<open>
  C9, evaluated at two names that are not presets. For \<^verbatim>\<open>'foo'\<close> the fallback
  supplies the durations of \<^verbatim>\<open>'pomodoro'\<close>, but the state is built with
  \<^verbatim>\<open>preset: presetName\<close>: it is not the state produced for \<^verbatim>\<open>'pomodoro'\<close>, and
  its \<open>preset\<close> is none of the three names the field is documented to hold. For
  \<^verbatim>\<open>'toString'\<close> the read \<^verbatim>\<open>presets[presetName]\<close> finds the method every object
  inherits, the fallback is not taken, the durations are \<^verbatim>\<open>undefined\<close> and
  \<^verbatim>\<open>remainingMs\<close> is \<^verbatim>\<open>NaN\<close>: neither \<^verbatim>\<open>initializeWithPreset\<close> nor
  \<^verbatim>\<open>selectPreset\<close> produces a timer state.
\<close>

theorem initializeWithPreset_keeps_unknown_name:
  "initializeWithPreset ''foo'' noCustomDurations = Some (defaultState \<lparr> preset := ''foo'' \<rparr>)
   \<and> initializeWithPreset ''pomodoro'' noCustomDurations = Some defaultState
   \<and> preset (defaultState \<lparr> preset := ''foo'' \<rparr>) \<noteq> preset defaultState
   \<and> map_option state (selectPreset ''foo'' noCustomDurations 0 freshEngine) =
       Some (defaultState \<lparr> preset := ''foo'' \<rparr>)
   \<and> initializeWithPreset ''toString'' noCustomDurations = None
   \<and> selectPreset ''toString'' noCustomDurations 0 freshEngine = None"
  by (simp add: selectPreset_def initializeWithPreset_def getPresets_def objectPrototypeKeys_def
        orElse_def noCustomDurations_def defaultState_def freshEngine_def emit_def stopTimer_def
        Let_def)

text \<open>
  C10, as the code has it. With the preset \<^verbatim>\<open>'custom'\<close>, an override that is 0 or
  missing gives way to the catalog's 25 or 5 and any other override is stored as it is
  given, so no duration of the new state is 0. Both durations and \<open>remainingMs\<close> are
  positive when no override is negative. \<^verbatim>\<open>setCustomDurations\<close> is that call of
  \<^verbatim>\<open>selectPreset\<close>.
\<close>

theorem custom_durations_fall_back:
  "\<exists>e'. setCustomDurations wo bo now e = Some e'
     \<and> selectPreset ''custom'' \<lparr> customWork = wo, customBreak = bo \<rparr> now e = Some e'
     \<and> preset (state e') = ''custom''
     \<and> remainingMs (state e') = workDuration (state e') * 60000
     \<and> workDuration (state e') \<noteq> 0 \<and> breakDuration (state e') \<noteq> 0
     \<and> (wo = None \<or> wo = Some 0 \<longrightarrow> workDuration (state e') = 25)
     \<and> (bo = None \<or> bo = Some 0 \<longrightarrow> breakDuration (state e') = 5)
     \<and> (\<forall>n. wo = Some n \<and> n \<noteq> 0 \<longrightarrow> workDuration (state e') = n)
     \<and> (\<forall>n. bo = Some n \<and> n \<noteq> 0 \<longrightarrow> breakDuration (state e') = n)
     \<and> ((\<forall>n. wo = Some n \<longrightarrow> 0 \<le> n) \<and> (\<forall>n. bo = Some n \<longrightarrow> 0 \<le> n) \<longrightarrow>
          0 < workDuration (state e') \<and> 0 < breakDuration (state e')
          \<and> 0 < remainingMs (state e'))"
  by (cases wo; cases bo)
     (auto simp add: setCustomDurations_def selectPreset_def initializeWithPreset_def
        getPresets_def orElse_def emit_def stopTimer_def Let_def defaultState_def)

text \<open>C10 at \<^verbatim>\<open>setCustomDurations(0, undefined)\<close> and at \<^verbatim>\<open>setCustomDurations(40, 0)\<close>.\<close>

theorem custom_durations_fall_back_witness:
  "map_option (workDuration \<circ> state) (setCustomDurations (Some 0) None 4 freshEngine) = Some 25
   \<and> map_option (breakDuration \<circ> state) (setCustomDurations (Some 0) None 4 freshEngine) = Some 5
   \<and> map_option (remainingMs \<circ> state) (setCustomDurations (Some 0) None 4 freshEngine)
       = Some 1500000
   \<and> map_option (workDuration \<circ> state) (setCustomDurations (Some 40) (Some 0) 4 freshEngine)
       = Some 40
   \<and> map_option (breakDuration \<circ> state) (setCustomDurations (Some 40) (Some 0) 4 freshEngine)
       = Some 5"
  using custom_durations_fall_back [of "Some 0" None 4 freshEngine]
    custom_durations_fall_back [of "Some 40" "Some 0" 4 freshEngine]
  by auto

text \<open>
  C10 as stated fails at \<^verbatim>\<open>setCustomDurations(-5, undefined)\<close>: the break override
  is missing and falls back to 5, the work override is stored, and the state has a
  negative work duration and a negative \<open>remainingMs\<close>.
\<close>

theorem negative_override_is_stored:
  "map_option (workDuration \<circ> state) (setCustomDurations (Some (- 5)) None 0 freshEngine)
     = Some (- 5)
   \<and> map_option (breakDuration \<circ> state) (setCustomDurations (Some (- 5)) None 0 freshEngine)
     = Some 5
   \<and> map_option (remainingMs \<circ> state) (setCustomDurations (Some (- 5)) None 0 freshEngine)
     = Some (- 300000)"
  by (simp add: setCustomDurations_def selectPreset_def initializeWithPreset_def getPresets_def
        orElse_def emit_def stopTimer_def Let_def freshEngine_def defaultState_def)

section \<open>Progress\<close>

lemma phaseTotalMs_eq:
  "(if mode s = Work then workDuration s * 60 * 1000 else breakDuration s * 60 * 1000) =
     phaseTotalMs s"
  by (simp add: phaseTotalMs_def)

lemma phaseTotalMs_pos: "0 < workDuration s \<Longrightarrow> 0 < breakDuration s \<Longrightarrow> 0 < phaseTotalMs s"
  by (simp add: phaseTotalMs_def)

lemma getProgress_total:
  "phaseTotalMs s \<noteq> 0 \<Longrightarrow>
   getProgress fl s =
     Some (min 100 (max 0
       (fl (fl (rat_of_int (phaseTotalMs s - remainingMs s) / rat_of_int (phaseTotalMs s))
              * 100))))"
  unfolding getProgress_def Let_def phaseTotalMs_eq by simp

lemma roundsToNearest_noRounding: "roundsToNearest noRounding"
  by (simp add: roundsToNearest_def noRounding_def mono_def)

lemma minDouble_pos: "0 < minDouble"
  by (simp add: minDouble_def)

lemma fl_nonpos:
  assumes "roundsToNearest fl" and "x \<le> 0"
  shows "fl x \<le> 0"
proof -
  have "fl x \<le> fl 0"
    using assms unfolding roundsToNearest_def mono_def by blast
  then show ?thesis
    using assms(1) by (simp add: roundsToNearest_def)
qed

lemma fl_keeps_positive:
  assumes "roundsToNearest fl" and "minDouble \<le> x"
  shows "minDouble \<le> fl x"
proof -
  have "fl minDouble \<le> fl x"
    using assms unfolding roundsToNearest_def mono_def by blast
  then show ?thesis
    using assms(1) by (simp add: roundsToNearest_def)
qed

lemma quotient_nonpos:
  fixes T r :: int
  assumes "0 < T" and "T \<le> r"
  shows "rat_of_int (T - r) / rat_of_int T \<le> 0"
proof -
  have "rat_of_int (T - r) \<le> 0"
    using assms(2) by simp
  moreover have "0 < rat_of_int T"
    using assms(1) by simp
  ultimately show ?thesis
    by (simp add: divide_le_0_iff del: of_int_diff)
qed

lemma quotient_above_minDouble:
  fixes T r :: int
  assumes "0 < T" and "T \<le> 2 ^ 1024" and "r < T"
  shows "minDouble \<le> rat_of_int (T - r) / rat_of_int T"
proof -
  have T: "0 < rat_of_int T"
    using assms(1) by simp
  have "rat_of_int T \<le> rat_of_int (2 ^ 1024)"
    using assms(2) by (simp only: of_int_le_iff)
  then have bound: "rat_of_int T \<le> 2 ^ 1024"
    by simp
  have "1 \<le> T - r"
    using assms(3) by simp
  then have "rat_of_int 1 \<le> rat_of_int (T - r)"
    by (simp only: of_int_le_iff)
  then have one: "1 \<le> rat_of_int (T - r)"
    by simp
  have "minDouble \<le> 1 / 2 ^ 1024"
    unfolding minDouble_def by (rule divide_left_mono) (simp_all add: power_increasing)
  also have "\<dots> \<le> 1 / rat_of_int T"
    using T bound by (simp add: frac_le)
  also have "\<dots> \<le> rat_of_int (T - r) / rat_of_int T"
    using T one by (simp add: divide_right_mono del: of_int_diff)
  finally show ?thesis .
qed

lemma progress_of_late_state:
  "roundsToNearest fl \<Longrightarrow> getProgress fl overfullState = Some 0"
proof -
  assume fl: "roundsToNearest fl"
  have T: "phaseTotalMs overfullState = 1500000" and r: "remainingMs overfullState = 1800000"
    by (simp_all add: phaseTotalMs_def overfullState_def defaultState_def)
  have "rat_of_int (phaseTotalMs overfullState - remainingMs overfullState)
          / rat_of_int (phaseTotalMs overfullState) \<le> 0"
    by (rule quotient_nonpos) (simp_all add: T r)
  then have "fl (rat_of_int (phaseTotalMs overfullState - remainingMs overfullState)
          / rat_of_int (phaseTotalMs overfullState)) * 100 \<le> 0"
    using fl_nonpos [OF fl] by (simp add: mult_le_0_iff del: of_int_diff)
  then have "fl (fl (rat_of_int (phaseTotalMs overfullState - remainingMs overfullState)
          / rat_of_int (phaseTotalMs overfullState)) * 100) \<le> 0"
    by (rule fl_nonpos [OF fl])
  then show ?thesis
    by (simp add: getProgress_total T max_def min_def del: of_int_diff)
qed

text \<open>
  C7, as the code has it. With positive durations \<^verbatim>\<open>getProgress\<close> is a number
  between 0 and 100: the clamped, rounded percentage that the time gone by is of the
  current mode's configured length. It is 100 when \<open>remainingMs = 0\<close>. It is 0
  whenever \<open>remainingMs\<close> is the full length or more, since \<^verbatim>\<open>Math.max(0, ...)\<close>
  brings every negative percentage to 0, and only then: with less than the full
  length left the quotient is at least \<open>2 ^ -1024\<close>, the phase length being a finite
  double, and rounding keeps it positive.
\<close>

theorem getProgress_clamped:
  assumes "roundsToNearest fl" and "0 < workDuration s" and "0 < breakDuration s"
  shows "\<exists>p. getProgress fl s = Some p \<and> 0 \<le> p \<and> p \<le> 100
           \<and> p = min 100 (max 0
                   (fl (fl (rat_of_int (phaseTotalMs s - remainingMs s)
                             / rat_of_int (phaseTotalMs s)) * 100)))
           \<and> (phaseTotalMs s \<le> remainingMs s \<longrightarrow> p = 0)
           \<and> (remainingMs s < phaseTotalMs s \<and> phaseTotalMs s \<le> 2 ^ 1024 \<longrightarrow> 0 < p)
           \<and> (remainingMs s = 0 \<longrightarrow> p = 100)"
proof -
  let ?q = "rat_of_int (phaseTotalMs s - remainingMs s) / rat_of_int (phaseTotalMs s)"
  let ?p = "min 100 (max 0 (fl (fl ?q * 100)))"
  have T: "0 < phaseTotalMs s"
    using assms(2,3) by (rule phaseTotalMs_pos)
  then have result: "getProgress fl s = Some ?p"
    by (simp add: getProgress_total)
  have range: "0 \<le> ?p" "?p \<le> 100"
    by simp_all
  have late: "?p = 0" if "phaseTotalMs s \<le> remainingMs s"
  proof -
    have "?q \<le> 0"
      using T that by (rule quotient_nonpos)
    then have "fl ?q \<le> 0"
      by (rule fl_nonpos [OF assms(1)])
    then have "fl ?q * 100 \<le> 0"
      by (simp add: mult_le_0_iff)
    then have "fl (fl ?q * 100) \<le> 0"
      by (rule fl_nonpos [OF assms(1)])
    then show ?thesis
      by (simp add: max_def min_def)
  qed
  have early: "0 < ?p" if "remainingMs s < phaseTotalMs s" and "phaseTotalMs s \<le> 2 ^ 1024"
  proof -
    have "minDouble \<le> ?q"
      using T that(2) that(1) by (rule quotient_above_minDouble)
    then have "minDouble \<le> fl ?q"
      by (rule fl_keeps_positive [OF assms(1)])
    moreover have "fl ?q \<le> fl ?q * 100"
      using minDouble_pos calculation by simp
    ultimately have "minDouble \<le> fl ?q * 100"
      by simp
    then have "minDouble \<le> fl (fl ?q * 100)"
      by (rule fl_keeps_positive [OF assms(1)])
    then have "0 < fl (fl ?q * 100)"
      using minDouble_pos by simp
    then show ?thesis
      by (simp add: max_def min_def)
  qed
  have full: "?p = 100" if "remainingMs s = 0"
  proof -
    have "?q = 1"
      using T that by simp
    then have "fl (fl ?q * 100) = 100"
      using assms(1) by (simp add: roundsToNearest_def)
    then show ?thesis
      by simp
  qed
  from result range late early full show ?thesis
    by blast
qed

text \<open>
  C7 at a 5-minute break with 75 seconds left, at its start and at its end. The
  quotients 3/4, 0 and 1 and the percentages 75, 0 and 100 are doubles, so the
  rounding returns them as they are.
\<close>

theorem getProgress_clamped_witness:
  "getProgress noRounding (defaultState \<lparr> mode := Break, remainingMs := 75000 \<rparr>) = Some 75
   \<and> getProgress noRounding (defaultState \<lparr> mode := Break, remainingMs := 300000 \<rparr>) = Some 0
   \<and> getProgress noRounding (defaultState \<lparr> mode := Break, remainingMs := 0 \<rparr>) = Some 100"
  using getProgress_clamped [of noRounding "defaultState \<lparr> mode := Break, remainingMs := 75000 \<rparr>"]
    getProgress_clamped [of noRounding "defaultState \<lparr> mode := Break, remainingMs := 300000 \<rparr>"]
    getProgress_clamped [of noRounding "defaultState \<lparr> mode := Break, remainingMs := 0 \<rparr>"]
    roundsToNearest_noRounding
  by (auto simp add: defaultState_def phaseTotalMs_def noRounding_def)

text \<open>
  C7 as stated fails for a state with more time left than the phase is long:
  30 minutes left of a 25-minute work phase give progress 0, and \<open>remainingMs\<close> is not
  the full length. The quotient is -1/5 and the percentage is negative under every
  rounding (\<open>progress_of_late_state\<close>); it is evaluated here without rounding.
\<close>

theorem getProgress_zero_above_full_length:
  "0 < workDuration overfullState \<and> 0 < breakDuration overfullState
   \<and> 0 \<le> remainingMs overfullState
   \<and> getProgress noRounding overfullState = Some 0
   \<and> remainingMs overfullState \<noteq> phaseTotalMs overfullState"
  by (simp add: getProgress_def overfullState_def defaultState_def phaseTotalMs_def
        noRounding_def)

section \<open>Counting sessions\<close>

lemma tick_sessions:
  "completedSessions (state (tick fl now e)) =
     (if isRunning (state e) \<and> remainingMs (state e) \<le> 1000 \<and> mode (state e) = Work
      then completedSessions (state e) + 1 else completedSessions (state e))"
proof -
  have expired: "(max 0 (remainingMs (state e) - 1000) = 0) = (remainingMs (state e) \<le> 1000)"
    by (simp add: max_def)
  show ?thesis
    by (simp add: tick_def expired handleTimerComplete_def updateState_def emit_def stopTimer_def
          transitionToNext_sessions Let_def)
qed

lemma skipSession_sessions:
  "completedSessions (state (skipSession now e)) =
     (if mode (state e) = Work then completedSessions (state e) + 1
      else completedSessions (state e))"
  by (simp add: skipSession_state transitionToNext_sessions)

lemma reset_sessions: "completedSessions (state (reset now e)) = completedSessions (state e)"
  by (simp add: reset_def updateState_def emit_def stopTimer_def Let_def)

lemma start_sessions: "completedSessions (state (start now e)) = completedSessions (state e)"
  by (simp add: start_def updateState_def emit_def startTimer_def Let_def)

lemma pause_sessions: "completedSessions (state (pause now e)) = completedSessions (state e)"
  by (simp add: pause_def updateState_def emit_def stopTimer_def Let_def)

lemma selectPreset_sessions:
  "selectPreset presetName cd now e = Some e' \<Longrightarrow>
   completedSessions (state e') = completedSessions (state e)"
  by (auto simp add: selectPreset_def emit_def stopTimer_def Let_def split: option.splits)

lemma loadState_sessions:
  assumes "readable ls" and "item ls = Some (Parsed raw)"
    and "raw_isRunning raw = Some True" and "raw_lastTickAt raw = Some t" and "t \<noteq> 0"
    and "raw_remainingMs raw = Some r" and "raw_completedSessions raw = Some c"
    and "loadState later ls = Some s'"
  shows "completedSessions s' =
           (if r \<le> later - t \<and> raw_mode raw = Some Work then c + 1 else c)"
  using assms
  by (auto simp add: loadState_def reconcile_running mergeDefaults_def orDefault_def
        split: if_splits option.splits)

lemma loadState_idle_sessions:
  assumes "readable ls" and "item ls = Some (Parsed raw)"
    and "\<not> (raw_isRunning raw = Some True \<and> truthy (raw_lastTickAt raw))"
    and "raw_completedSessions raw = Some c"
  shows "map_option completedSessions (loadState later ls) = Some c"
  using assms
  by (auto simp add: loadState_def reconcile_def mergeDefaults_def orDefault_def)

lemma resetAll_sessions:
  "writable (storage e) \<Longrightarrow>
   map_option (completedSessions \<circ> state) (resetAll now e) = Some 0"
  by (simp add: resetAll_def clearState_def loadState_def stopTimer_def emit_def Let_def
        defaultState_def)

text \<open>
  C8. Every path that ends a phase counts it the same way: one more session when the
  phase that ended was work, the same count when it was a break. This holds for the
  transition rule itself, for a tick (which ends the phase exactly when the engine is
  running and at most 1000 ms are left), for \<^verbatim>\<open>skipSession\<close>, and for
  \<^verbatim>\<open>loadState\<close> when the time away used up what was left. A tick or a load that
  does not end the phase, \<^verbatim>\<open>reset\<close>, \<^verbatim>\<open>start\<close>, \<^verbatim>\<open>pause\<close> and
  \<^verbatim>\<open>selectPreset\<close> keep the count, and \<^verbatim>\<open>resetAll\<close> on a store that accepts the
  removal starts again from 0.
\<close>

theorem completedSessions_counts_work_phases:
  "completedSessions (transitionToNext s) =
      (if mode s = Work then completedSessions s + 1 else completedSessions s)
   \<and> completedSessions (state (tick fl now e)) =
      (if isRunning (state e) \<and> remainingMs (state e) \<le> 1000 \<and> mode (state e) = Work
       then completedSessions (state e) + 1 else completedSessions (state e))
   \<and> completedSessions (state (skipSession now e)) =
      (if mode (state e) = Work then completedSessions (state e) + 1
       else completedSessions (state e))
   \<and> (readable ls \<and> item ls = Some (Parsed raw) \<and> raw_isRunning raw = Some True
        \<and> raw_lastTickAt raw = Some t \<and> t \<noteq> 0 \<and> raw_remainingMs raw = Some r
        \<and> raw_completedSessions raw = Some c \<and> loadState later ls = Some s' \<longrightarrow>
      completedSessions s' = (if r \<le> later - t \<and> raw_mode raw = Some Work then c + 1 else c))
   \<and> (readable ls \<and> item ls = Some (Parsed raw)
        \<and> \<not> (raw_isRunning raw = Some True \<and> truthy (raw_lastTickAt raw))
        \<and> raw_completedSessions raw = Some c \<longrightarrow>
      map_option completedSessions (loadState later ls) = Some c)
   \<and> completedSessions (state (reset now e)) = completedSessions (state e)
   \<and> completedSessions (state (start now e)) = completedSessions (state e)
   \<and> completedSessions (state (pause now e)) = completedSessions (state e)
   \<and> (selectPreset presetName cd now e = Some e' \<longrightarrow>
        completedSessions (state e') = completedSessions (state e))
   \<and> (writable (storage e) \<longrightarrow>
        map_option (completedSessions \<circ> state) (resetAll now e) = Some 0)"
  using transitionToNext_sessions [of s] tick_sessions [of fl now e] skipSession_sessions [of now e]
    loadState_sessions [of ls raw t r c later s'] loadState_idle_sessions [of ls raw c later]
    reset_sessions [of now e] start_sessions [of now e] pause_sessions [of now e]
    selectPreset_sessions [of presetName cd now e e'] resetAll_sessions [of e now]
  by blast

text \<open>
  C8 at a running work phase with one second left and three sessions done, and at the
  record of a work phase that ran out while nothing was ticking.
\<close>

theorem completedSessions_counts_work_phases_witness:
  "completedSessions (state (tick noRounding 12 expiringEngine)) = 4
   \<and> completedSessions (state (skipSession 12 expiringEngine)) = 4
   \<and> completedSessions (state (reset 12 expiringEngine)) = 3
   \<and> map_option (completedSessions \<circ> state) (resetAll 12 expiringEngine) = Some 0
   \<and> map_option completedSessions
        (loadState 100000 (workingStorage \<lparr> item := Some (Parsed awayRecord) \<rparr>)) = Some 4
   \<and> map_option (completedSessions \<circ> state)
        (selectPreset ''deepwork'' noCustomDurations 12 expiringEngine) = Some 3"
proof -
  obtain e' where sel: "selectPreset ''deepwork'' noCustomDurations 12 expiringEngine = Some e'"
    by (simp add: selectPreset_def initializeWithPreset_def getPresets_def Let_def)
  obtain s' where ld:
    "loadState 100000 (workingStorage \<lparr> item := Some (Parsed awayRecord) \<rparr>) = Some s'"
    by (simp add: loadState_def reconcile_def truthy_def awayRecord_def toRaw_def
          workingStorage_def defaultState_def Let_def)
  show ?thesis
    using completedSessions_counts_work_phases
      [where s = "state expiringEngine" and fl = noRounding and now = 12 and e = expiringEngine
        and ls = "workingStorage \<lparr> item := Some (Parsed awayRecord) \<rparr>" and raw = awayRecord
        and t = 70000 and r = 10000 and c = 3 and later = 100000 and s' = s'
        and presetName = "''deepwork''" and cd = noCustomDurations and e' = e']
      sel ld
    by (simp add: expiringEngine_def freshEngine_def workingStorage_def awayRecord_def toRaw_def
          defaultState_def)
qed

end
